theory Spec2Isabelle
  imports Complex_Main "HOL-Library.AList"
begin

section \<open>Scene geometry used by graph\_editor.py\<close>

text \<open>
  Coordinates are Qt's \<open>qreal\<close>; they are modelled as exact rationals, so the
  rounding of floating point arithmetic is outside the model. A point is a pair
  \<open>(x, y)\<close>, a \<open>QRectF\<close> is a record of its four stored numbers.
\<close>

type_synonym point = "rat \<times> rat"

record qrectf =
  rx :: rat
  ry :: rat
  rwidth :: rat
  rheight :: rat

definition padd :: "point \<Rightarrow> point \<Rightarrow> point" where
  "padd p q = (fst p + fst q, snd p + snd q)"

definition psub :: "point \<Rightarrow> point \<Rightarrow> point" where
  "psub p q = (fst p - fst q, snd p - snd q)"

text \<open>\<open>QRectF()\<close>: the null rectangle.\<close>

definition QRectF_null :: qrectf where
  "QRectF_null = \<lparr>rx = 0, ry = 0, rwidth = 0, rheight = 0\<rparr>"

definition isNull :: "qrectf \<Rightarrow> bool" where
  "isNull r = (rwidth r = 0 \<and> rheight r = 0)"

text \<open>\<open>QRectF.adjust(dx1, dy1, dx2, dy2)\<close> moves the two corners.\<close>

definition adjust :: "qrectf \<Rightarrow> rat \<Rightarrow> rat \<Rightarrow> rat \<Rightarrow> rat \<Rightarrow> qrectf" where
  "adjust r dx1 dy1 dx2 dy2 =
     \<lparr>rx = rx r + dx1, ry = ry r + dy1,
      rwidth = rwidth r + dx2 - dx1, rheight = rheight r + dy2 - dy1\<rparr>"

definition translated :: "qrectf \<Rightarrow> point \<Rightarrow> qrectf" where
  "translated r p = r\<lparr>rx := rx r + fst p, ry := ry r + snd p\<rparr>"

text \<open>
  \<open>QRectF.united\<close>: a null operand yields the other one; otherwise the smallest
  rectangle around both, each operand normalised when its width or height is negative.
\<close>

definition united :: "qrectf \<Rightarrow> qrectf \<Rightarrow> qrectf" where
  "united a b =
     (if isNull a then b
      else if isNull b then a
      else
        let la = (if rwidth a < 0 then rx a + rwidth a else rx a);
            ra = (if rwidth a < 0 then rx a else rx a + rwidth a);
            lb = (if rwidth b < 0 then rx b + rwidth b else rx b);
            rb = (if rwidth b < 0 then rx b else rx b + rwidth b);
            ta = (if rheight a < 0 then ry a + rheight a else ry a);
            ba = (if rheight a < 0 then ry a else ry a + rheight a);
            tb = (if rheight b < 0 then ry b + rheight b else ry b);
            bb = (if rheight b < 0 then ry b else ry b + rheight b);
            l = min la lb; r = max ra rb; t = min ta tb; bo = max ba bb
        in \<lparr>rx = l, ry = t, rwidth = r - l, rheight = bo - t\<rparr>)"

text \<open>
  \<open>QRectF.contains(QPointF)\<close>: edges included, a rectangle of zero width or zero
  height contains nothing.
\<close>

definition contains :: "qrectf \<Rightarrow> point \<Rightarrow> bool" where
  "contains r p =
     (let l = (if rwidth r < 0 then rx r + rwidth r else rx r);
          ri = (if rwidth r < 0 then rx r else rx r + rwidth r);
          t = (if rheight r < 0 then ry r + rheight r else ry r);
          bo = (if rheight r < 0 then ry r else ry r + rheight r)
      in \<not> (l = ri) \<and> \<not> (fst p < l) \<and> \<not> (ri < fst p)
         \<and> \<not> (t = bo) \<and> \<not> (snd p < t) \<and> \<not> (bo < snd p))"

text \<open>
  The bounding rectangle of a \<open>QGraphicsRectItem\<close> is its rectangle widened on every
  side by half the width of its pen; the items here keep the default pen, of width 1.
\<close>

definition PEN_HALF_WIDTH :: rat where
  "PEN_HALF_WIDTH = 1 / 2"

definition boundingRect :: "qrectf \<Rightarrow> qrectf" where
  "boundingRect r =
     adjust r (- PEN_HALF_WIDTH) (- PEN_HALF_WIDTH) PEN_HALF_WIDTH PEN_HALF_WIDTH"

section \<open>Blocks and their anchors\<close>

text \<open>
  A \<open>GraphBlock\<close> object. \<open>rect\<close>, \<open>pos\<close> and \<open>parentItem\<close> are the
  state the block inherits from \<open>QGraphicsRectItem\<close>: its rectangle in its own
  coordinates, its position in the coordinates of its parent (of the scene when it has
  none), and the cluster object it is a child of. \<open>anchors\<close> is the dictionary from
  an orientation name to the position of that \<open>AnchorHandle\<close> (a child item of the
  block, so a position in block coordinates). Objects are referred to by their index in
  the editor's object stores.
\<close>

record block =
  block_id :: int
  title :: string
  content :: string
  color :: string
  locked :: bool
  rect :: qrectf
  pos :: point
  parentItem :: "nat option"
  anchors :: "(string \<times> point) list"

definition HANDLE_SIZE :: rat where
  "HANDLE_SIZE = 8"

definition orientations :: "string list" where
  "orientations = [''top'', ''bottom'', ''left'', ''right'']"

text \<open>\<open>self.anchors[orient].setPos(x, y)\<close>\<close>

definition anchor_setPos :: "string \<Rightarrow> point \<Rightarrow> block \<Rightarrow> block" where
  "anchor_setPos orient p b =
     b\<lparr>anchors := map (\<lambda>(k, v). if k = orient then (k, p) else (k, v)) (anchors b)\<rparr>"

definition updateAnchors :: "block \<Rightarrow> block" where
  "updateAnchors b =
     (let r = rect b; size = HANDLE_SIZE in
      anchor_setPos ''right'' (rwidth r - size / 2, rheight r / 2 - size / 2)
       (anchor_setPos ''left'' (- size / 2, rheight r / 2 - size / 2)
         (anchor_setPos ''bottom'' (rwidth r / 2 - size / 2, rheight r - size / 2)
           (anchor_setPos ''top'' (rwidth r / 2 - size / 2, - size / 2) b))))"

text \<open>
  \<open>GraphBlock.__init__\<close>, together with the assignment of \<open>block_id\<close> that
  both places creating a block make right after it. The four handles are created at the
  origin of the block and then placed by \<open>updateAnchors\<close>.
\<close>

definition GraphBlock_init :: "qrectf \<Rightarrow> string \<Rightarrow> int \<Rightarrow> block" where
  "GraphBlock_init r t bid =
     updateAnchors
       \<lparr>block_id = bid, title = t, content = '''', color = ''#ffffff'', locked = False,
        rect = r, pos = (0, 0), parentItem = None,
        anchors = map (\<lambda>orient. (orient, (0, 0))) orientations\<rparr>"

definition setTitle :: "string \<Rightarrow> block \<Rightarrow> block" where
  "setTitle t b = b\<lparr>title := t\<rparr>"

definition setBlockRect :: "qrectf \<Rightarrow> block \<Rightarrow> block" where
  "setBlockRect newRect b = updateAnchors (b\<lparr>rect := newRect\<rparr>)"

text \<open>
  A move of the block by the user: \<open>itemChange\<close> answers a position change of a
  locked block with the current position.
\<close>

definition block_move :: "point \<Rightarrow> block \<Rightarrow> block" where
  "block_move p b = b\<lparr>pos := (if locked b then pos b else p)\<rparr>"



section \<open>Clusters, connections and the editor\<close>

text \<open>
  A \<open>GraphCluster\<close> object: \<open>cblocks\<close> is its list \<open>blocks\<close> of block
  objects, \<open>crect\<close> and \<open>cpos\<close> are the rectangle and the position it inherits
  from \<open>QGraphicsRectItem\<close>. A cluster is never given a parent, so its position is
  a scene position. The id of a cluster is only the key under which the editor registers it.
\<close>

record cluster =
  ctitle :: string
  ccolor :: string
  cblocks :: "nat list"
  clocked :: bool
  crect :: qrectf
  cpos :: point

text \<open>
  An \<open>AnchorHandle\<close> object is identified by its \<open>parent_block\<close> and its
  \<open>orientation\<close>. A \<open>GraphConnection\<close> holds its start handle and, once
  committed, its end handle. The line item of a connection is its drawing and is not part
  of the model.
\<close>

type_synonym anchor = "nat \<times> string"

record connection =
  start_anchor :: anchor
  end_anchor :: "anchor option"

text \<open>
  A selectable item of the scene: a block, a cluster, or the line of a connection.
\<close>

datatype item = BlockItem nat | ClusterItem nat | LineItem connection

text \<open>
  The state of a \<open>GraphEditor\<close>. \<open>blocks\<close> and \<open>clusters\<close> are the two
  dictionaries, as association lists in insertion order, from an id to an object;
  \<open>block_objs\<close> and \<open>cluster_objs\<close> are the stores of all block and cluster
  objects created so far, an object being referred to by its index. An object that is
  no longer registered stays in its store, as a Python object stays alive while
  something refers to it.
\<close>

record editor =
  block_id_counter :: int
  cluster_id_counter :: int
  blocks :: "(int \<times> nat) list"
  clusters :: "(int \<times> nat) list"
  connections :: "connection list"
  currentBlock :: "nat option"
  currentCluster :: "nat option"
  editLocked :: bool
  current_connection :: "connection option"
  block_objs :: "block list"
  cluster_objs :: "cluster list"

definition GraphEditor_init :: editor where
  "GraphEditor_init =
     \<lparr>block_id_counter = 1, cluster_id_counter = 1, blocks = [], clusters = [],
      connections = [], currentBlock = None, currentCluster = None, editLocked = False,
      current_connection = None, block_objs = [], cluster_objs = []\<rparr>"

text \<open>
  \<open>scenePos()\<close> of a block: its position, shifted by the position of its parent
  cluster when it has one. No item of the program is rotated or scaled.
\<close>

definition scenePos :: "editor \<Rightarrow> block \<Rightarrow> point" where
  "scenePos s b =
     (case parentItem b of
        None \<Rightarrow> pos b
      | Some c \<Rightarrow> padd (cpos (cluster_objs s ! c)) (pos b))"

definition sceneBoundingRect :: "editor \<Rightarrow> block \<Rightarrow> qrectf" where
  "sceneBoundingRect s b = translated (boundingRect (rect b)) (scenePos s b)"

definition cluster_sceneBoundingRect :: "cluster \<Rightarrow> qrectf" where
  "cluster_sceneBoundingRect c = translated (boundingRect (crect c)) (cpos c)"

text \<open>
  \<open>setParentItem\<close> of a block: Qt changes the parent and leaves \<open>pos\<close> as it
  is, to be read in the coordinates of the new parent from then on.
\<close>

definition setParentItem :: "nat \<Rightarrow> nat option \<Rightarrow> editor \<Rightarrow> editor" where
  "setParentItem blk p s =
     s\<lparr>block_objs := (block_objs s)[blk := (block_objs s ! blk)\<lparr>parentItem := p\<rparr>]\<rparr>"

fun computeBoundingRect :: "editor \<Rightarrow> nat list \<Rightarrow> qrectf" where
  "computeBoundingRect s [] = QRectF_null"
| "computeBoundingRect s (b # bs) =
     adjust
       (foldl (\<lambda>r blk. united r (sceneBoundingRect s (block_objs s ! blk)))
          (sceneBoundingRect s (block_objs s ! b)) bs)
       (- 10) (- 10) 10 10"

definition GraphCluster_init :: "editor \<Rightarrow> nat list \<Rightarrow> string \<Rightarrow> cluster" where
  "GraphCluster_init s blks t =
     \<lparr>ctitle = t, ccolor = ''#ffeeaa'', cblocks = blks, clocked = False,
      crect = computeBoundingRect s blks, cpos = (0, 0)\<rparr>"

text \<open>\<open>GraphCluster.setClusterRect\<close>; no place of the source calls it.\<close>

definition setClusterRect :: "qrectf \<Rightarrow> cluster \<Rightarrow> cluster" where
  "setClusterRect newRect c = c\<lparr>crect := newRect\<rparr>"

text \<open>A move of a cluster by the user; a locked cluster stays where it is.\<close>

definition cluster_move :: "point \<Rightarrow> cluster \<Rightarrow> cluster" where
  "cluster_move p c = c\<lparr>cpos := (if clocked c then cpos c else p)\<rparr>"

definition moveBlock :: "nat \<Rightarrow> point \<Rightarrow> editor \<Rightarrow> editor" where
  "moveBlock blk p s = s\<lparr>block_objs := (block_objs s)[blk := block_move p (block_objs s ! blk)]\<rparr>"

definition moveCluster :: "nat \<Rightarrow> point \<Rightarrow> editor \<Rightarrow> editor" where
  "moveCluster c p s =
     s\<lparr>cluster_objs := (cluster_objs s)[c := cluster_move p (cluster_objs s ! c)]\<rparr>"

subsection \<open>Selection and creation\<close>

definition setCurrentBlock :: "nat \<Rightarrow> editor \<Rightarrow> editor" where
  "setCurrentBlock blk s =
     (if \<not> editLocked s then s\<lparr>currentBlock := Some blk, currentCluster := None\<rparr> else s)"

definition setCurrentCluster :: "nat \<Rightarrow> editor \<Rightarrow> editor" where
  "setCurrentCluster c s =
     (if \<not> editLocked s then s\<lparr>currentCluster := Some c, currentBlock := None\<rparr> else s)"

text \<open>The title of a new block, the UTF-8 bytes of the source's literal.\<close>

definition NEW_BLOCK_TITLE :: string where
  "NEW_BLOCK_TITLE =
     map char_of [208, 157, 208, 190, 208, 178, 208, 184, 208, 185, 32,
                  208, 177, 208, 187, 208, 190, 208, 186 :: nat]"

definition CLUSTER_TITLE_PREFIX :: string where
  "CLUSTER_TITLE_PREFIX =
     map char_of [208, 154, 208, 187, 208, 176, 209, 129, 209, 130, 208, 181, 209, 128,
                  32 :: nat]"

fun str_nat :: "nat \<Rightarrow> string" where
  "str_nat n =
     (if n < 10 then [char_of (48 + n)] else str_nat (n div 10) @ [char_of (48 + n mod 10)])"

definition str_int :: "int \<Rightarrow> string" where
  "str_int i = (if i < 0 then CHR ''-'' # str_nat (nat (- i)) else str_nat (nat i))"

text \<open>\<open>addBlock\<close>; \<open>x\<close> and \<open>y\<close> are the two random integers it draws.\<close>

definition addBlock :: "int \<Rightarrow> int \<Rightarrow> editor \<Rightarrow> editor" where
  "addBlock x y s =
     (let r = \<lparr>rx = 0, ry = 0, rwidth = 150, rheight = 80\<rparr>;
          blk = length (block_objs s);
          b = GraphBlock_init r NEW_BLOCK_TITLE (block_id_counter s);
          s1 = s\<lparr>block_objs := block_objs s @ [b],
                 blocks := AList.update (block_id_counter s) blk (blocks s),
                 block_id_counter := block_id_counter s + 1\<rparr>;
          s2 = moveBlock blk (of_int x, of_int y) s1
      in setCurrentBlock blk s2)"

text \<open>
  \<open>groupSelectedBlocks\<close>; \<open>sel\<close> is \<open>scene.selectedItems()\<close>. The cluster is
  built from the scene rectangles the blocks have before they are reparented.
\<close>

definition selected_blocks :: "item list \<Rightarrow> nat list" where
  "selected_blocks sel = concat (map (\<lambda>i. case i of BlockItem b \<Rightarrow> [b] | _ \<Rightarrow> []) sel)"

definition groupSelectedBlocks :: "item list \<Rightarrow> editor \<Rightarrow> editor" where
  "groupSelectedBlocks sel s =
     (let blks = selected_blocks sel in
      if length blks < 2 then s
      else
        let c = length (cluster_objs s);
            cl = GraphCluster_init s blks
                   (CLUSTER_TITLE_PREFIX @ str_int (cluster_id_counter s));
            s1 = s\<lparr>cluster_objs := cluster_objs s @ [cl],
                   clusters := AList.update (cluster_id_counter s) c (clusters s),
                   cluster_id_counter := cluster_id_counter s + 1\<rparr>
        in foldl (\<lambda>st blk. setParentItem blk (Some c) st) s1 blks)"

definition detachClusterBlocks :: "editor \<Rightarrow> editor" where
  "detachClusterBlocks s =
     (case currentCluster s of
        None \<Rightarrow> s
      | Some c \<Rightarrow>
          let s1 = foldl (\<lambda>st blk. setParentItem blk None st) s (cblocks (cluster_objs s ! c))
          in s1\<lparr>cluster_objs :=
                  (cluster_objs s1)[c := (cluster_objs s1 ! c)\<lparr>cblocks := [], crect := QRectF_null\<rparr>]\<rparr>)"

definition attach_block :: "nat \<Rightarrow> qrectf \<Rightarrow> editor \<Rightarrow> nat \<Rightarrow> editor" where
  "attach_block c cluster_rect s blk =
     (let b = block_objs s ! blk in
      if parentItem b = None \<and> contains cluster_rect (scenePos s b) then
        let s1 = setParentItem blk (Some c) s; cl = cluster_objs s1 ! c in
        if blk \<notin> set (cblocks cl)
        then s1\<lparr>cluster_objs := (cluster_objs s1)[c := cl\<lparr>cblocks := cblocks cl @ [blk]\<rparr>]\<rparr>
        else s1
      else s)"

definition attachClusterBlocks :: "editor \<Rightarrow> editor" where
  "attachClusterBlocks s =
     (case currentCluster s of
        None \<Rightarrow> s
      | Some c \<Rightarrow>
          let cluster_rect = cluster_sceneBoundingRect (cluster_objs s ! c)
          in foldl (attach_block c cluster_rect) s (map snd (blocks s)))"



subsection \<open>Connections\<close>

definition startConnection :: "anchor \<Rightarrow> editor \<Rightarrow> editor" where
  "startConnection a s =
     (case current_connection s of
        Some _ \<Rightarrow> s
      | None \<Rightarrow> s\<lparr>current_connection := Some \<lparr>start_anchor = a, end_anchor = None\<rparr>\<rparr>)"

definition cancelConnection :: "editor \<Rightarrow> editor" where
  "cancelConnection s = s\<lparr>current_connection := None\<rparr>"

definition endConnection :: "anchor \<Rightarrow> editor \<Rightarrow> editor" where
  "endConnection a s =
     (case current_connection s of
        None \<Rightarrow> s
      | Some conn \<Rightarrow>
          if fst a \<noteq> fst (start_anchor conn)
          then s\<lparr>connections := connections s @ [conn\<lparr>end_anchor := Some a\<rparr>],
                 current_connection := None\<rparr>
          else (cancelConnection s)\<lparr>current_connection := None\<rparr>)"


text \<open>The test \<open>deleteSelected\<close> makes on a connection for the block \<open>blk\<close>.\<close>

definition touches :: "nat \<Rightarrow> connection \<Rightarrow> bool" where
  "touches blk conn =
     (fst (start_anchor conn) = blk
      \<or> (case end_anchor conn of None \<Rightarrow> False | Some e \<Rightarrow> fst e = blk))"

text \<open>
  \<open>for key, val in list(self.clusters.items()): if val == item: del ...; break\<close>
\<close>

fun del_first_value :: "'v \<Rightarrow> ('k \<times> 'v) list \<Rightarrow> ('k \<times> 'v) list" where
  "del_first_value v [] = []"
| "del_first_value v ((k, x) # d) = (if x = v then d else (k, x) # del_first_value v d)"

text \<open>One round of the loop of \<open>deleteSelected\<close> over the selected items.\<close>

fun delete_item :: "editor \<Rightarrow> item \<Rightarrow> editor" where
  "delete_item s (BlockItem blk) =
     (let it = block_objs s ! blk in
      if block_id it \<in> set (map fst (blocks s)) then
        let conns_to_remove = filter (touches blk) (connections s);
            conns = foldl (\<lambda>cs conn. if conn \<in> set cs then remove1 conn cs else cs)
                      (connections s) conns_to_remove
        in s\<lparr>connections := conns, blocks := AList.delete (block_id it) (blocks s)\<rparr>
      else s)"
| "delete_item s (ClusterItem c) =
     (let s1 = foldl (\<lambda>st blk. setParentItem blk None st) s (cblocks (cluster_objs s ! c))
      in s1\<lparr>clusters := del_first_value c (clusters s1)\<rparr>)"
| "delete_item s (LineItem conn) = s"

definition deleteSelected :: "item list \<Rightarrow> editor \<Rightarrow> editor" where
  "deleteSelected sel s = foldl delete_item s sel"

subsection \<open>The edit panel\<close>


text \<open>
  \<open>saveEdit\<close>. \<open>t\<close> and \<open>co\<close> are the texts of the title and content fields;
  \<open>w\<close> and \<open>h\<close> are what \<open>float\<close> makes of the width and height fields,
  \<open>None\<close> where it raises \<open>ValueError\<close>. Both conversions stand in one
  \<open>try\<close>, so one failure falls back to the current width and height for both. In the
  cluster branch the source computes \<open>newRect\<close> and ends there.
\<close>

definition saveEdit :: "string \<Rightarrow> string \<Rightarrow> rat option \<Rightarrow> rat option \<Rightarrow> editor \<Rightarrow> editor" where
  "saveEdit t co w h s =
     (case currentBlock s of
        Some blk \<Rightarrow>
          let b = block_objs s ! blk;
              (width, height) = (case (w, h) of
                                   (Some w', Some h') \<Rightarrow> (w', h')
                                 | _ \<Rightarrow> (rwidth (rect b), rheight (rect b)));
              b1 = (setTitle t b)\<lparr>content := co\<rparr>;
              newRect = \<lparr>rx = 0, ry = 0, rwidth = width, rheight = height\<rparr>
          in s\<lparr>block_objs := (block_objs s)[blk := setBlockRect newRect b1]\<rparr>
      | None \<Rightarrow>
          (case currentCluster s of
             Some c \<Rightarrow>
               let cl = cluster_objs s ! c;
                   (width, height) = (case (w, h) of
                                        (Some w', Some h') \<Rightarrow> (w', h')
                                      | _ \<Rightarrow> (rwidth (crect cl), rheight (crect cl)));
                   cl1 = cl\<lparr>ctitle := t\<rparr>;
                   newRect = \<lparr>rx = rx (crect cl1), ry = ry (crect cl1),
                              rwidth = width, rheight = height\<rparr>
               in s\<lparr>cluster_objs := (cluster_objs s)[c := cl1]\<rparr>
           | None \<Rightarrow> s))"

section \<open>Documents: new, open, save\<close>

text \<open>
  The parsed JSON document. Every key of an entry is optional in the file, so every
  field is an option, \<open>None\<close> when the key is missing. Values of the wrong JSON type
  are outside the model.
\<close>

record block_data =
  bd_id :: "int option"
  bd_title :: "string option"
  bd_content :: "string option"
  bd_x :: "rat option"
  bd_y :: "rat option"
  bd_width :: "rat option"
  bd_height :: "rat option"
  bd_color :: "string option"
  bd_locked :: "bool option"

record cluster_data =
  cd_id :: "int option"
  cd_title :: "string option"
  cd_color :: "string option"
  cd_block_ids :: "int list option"
  cd_locked :: "bool option"

record connection_data =
  cn_start_block_id :: "int option"
  cn_start_anchor :: "string option"
  cn_end_block_id :: "int option"
  cn_end_anchor :: "string option"

record document =
  doc_blocks :: "block_data list option"
  doc_clusters :: "cluster_data list option"
  doc_connections :: "connection_data list option"

datatype error = OSError | JSONDecodeError | KeyError | AttributeError

text \<open>\<open>d.get(key, default)\<close>\<close>

definition get_default :: "'a option \<Rightarrow> 'a \<Rightarrow> 'a" where
  "get_default v d = (case v of None \<Rightarrow> d | Some x \<Rightarrow> x)"

definition newFile :: "editor \<Rightarrow> editor" where
  "newFile s =
     s\<lparr>blocks := [], clusters := [], connections := [],
       block_id_counter := 1, cluster_id_counter := 1,
       currentBlock := None, currentCluster := None\<rparr>"

text \<open>
  One round of the loop over \<open>data["blocks"]\<close>. The keys read with
  \<open>block_data[...]\<close> raise \<open>KeyError\<close> when missing, and they are all read before
  the block is registered. The position is set while the new block is still unlocked.
  An exception leaves the editor as it is at that moment, so the result is the error, if
  any, together with the editor.
\<close>

definition load_block :: "editor \<Rightarrow> block_data \<Rightarrow> error option \<times> editor" where
  "load_block s bd =
     (case (bd_width bd, bd_height bd, bd_title bd, bd_id bd, bd_x bd, bd_y bd) of
        (Some w, Some h, Some t, Some bid, Some x, Some y) \<Rightarrow>
          let b = GraphBlock_init \<lparr>rx = 0, ry = 0, rwidth = w, rheight = h\<rparr> t bid;
              b1 = b\<lparr>content := get_default (bd_content bd) [],
                     color := get_default (bd_color bd) ''#ffffff''\<rparr>;
              b2 = block_move (x, y) b1;
              b3 = b2\<lparr>locked := get_default (bd_locked bd) False\<rparr>;
              blk = length (block_objs s);
              s1 = s\<lparr>block_objs := block_objs s @ [b3],
                     blocks := AList.update bid blk (blocks s)\<rparr>
          in (None, if bid \<ge> block_id_counter s1 then s1\<lparr>block_id_counter := bid + 1\<rparr> else s1)
      | _ \<Rightarrow> (Some KeyError, s))"

fun load_blocks :: "editor \<Rightarrow> block_data list \<Rightarrow> error option \<times> editor" where
  "load_blocks s [] = (None, s)"
| "load_blocks s (bd # bds) =
     (case load_block s bd of
        (Some e, s1) \<Rightarrow> (Some e, s1)
      | (None, s1) \<Rightarrow> load_blocks s1 bds)"

text \<open>
  One round of the loop over \<open>data["clusters"]\<close>. The member blocks are not
  reparented here. \<open>title\<close> and \<open>id\<close> are only read when some member resolves.
\<close>

definition load_cluster :: "editor \<Rightarrow> cluster_data \<Rightarrow> error option \<times> editor" where
  "load_cluster s cd =
     (let cluster_blocks = List.map_filter (map_of (blocks s)) (get_default (cd_block_ids cd) []) in
      if cluster_blocks \<noteq> [] then
        (case cd_title cd of
           None \<Rightarrow> (Some KeyError, s)
         | Some t \<Rightarrow>
             let cl = (GraphCluster_init s cluster_blocks t)
                        \<lparr>ccolor := get_default (cd_color cd) ''#ffeeaa'',
                         clocked := get_default (cd_locked cd) False\<rparr>
             in (case cd_id cd of
                   None \<Rightarrow> (Some KeyError, s)
                 | Some cid \<Rightarrow>
                     (None, s\<lparr>cluster_objs := cluster_objs s @ [cl],
                              clusters := AList.update cid (length (cluster_objs s)) (clusters s)\<rparr>)))
      else (None, s))"

fun load_clusters :: "editor \<Rightarrow> cluster_data list \<Rightarrow> error option \<times> editor" where
  "load_clusters s [] = (None, s)"
| "load_clusters s (cd # cds) =
     (case load_cluster s cd of
        (Some e, s1) \<Rightarrow> (Some e, s1)
      | (None, s1) \<Rightarrow> load_clusters s1 cds)"

text \<open>\<open>block.anchors.get(orientation)\<close>: the handle of that name, or \<open>None\<close>.\<close>

definition anchors_get :: "editor \<Rightarrow> nat \<Rightarrow> string \<Rightarrow> anchor option" where
  "anchors_get s blk orient =
     (case map_of (anchors (block_objs s ! blk)) orient of
        None \<Rightarrow> None
      | Some _ \<Rightarrow> Some (blk, orient))"

text \<open>
  \<open>GraphConnection.create_line_item\<close> reads
  \<open>self.start_anchor.sceneBoundingRect()\<close>: with \<open>start_anchor\<close> being
  \<open>None\<close> that is an \<open>AttributeError\<close>. Otherwise the line is drawn and the
  connection has the start handle it was built with.
\<close>

definition create_line_item :: "anchor option \<Rightarrow> error + anchor" where
  "create_line_item a = (case a of None \<Rightarrow> Inl AttributeError | Some sa \<Rightarrow> Inr sa)"

text \<open>One round of the loop over \<open>data["connections"]\<close>.\<close>

definition load_connection :: "editor \<Rightarrow> connection_data \<Rightarrow> error option \<times> editor" where
  "load_connection s cn =
     (case (cn_start_block_id cn, cn_end_block_id cn, cn_start_anchor cn, cn_end_anchor cn) of
        (Some start_id, Some end_id, Some start_orientation, Some end_orientation) \<Rightarrow>
          (case (map_of (blocks s) start_id, map_of (blocks s) end_id) of
             (Some start_block, Some end_block) \<Rightarrow>
               let sa = anchors_get s start_block start_orientation;
                   ea = anchors_get s end_block end_orientation
               in (case create_line_item sa of
                     Inl e \<Rightarrow> (Some e, s)
                   | Inr a \<Rightarrow>
                       (None, s\<lparr>connections :=
                                  connections s @ [\<lparr>start_anchor = a, end_anchor = ea\<rparr>]\<rparr>))
           | _ \<Rightarrow> (None, s))
      | _ \<Rightarrow> (Some KeyError, s))"

fun load_connections :: "editor \<Rightarrow> connection_data list \<Rightarrow> error option \<times> editor" where
  "load_connections s [] = (None, s)"
| "load_connections s (cn # cns) =
     (case load_connection s cn of
        (Some e, s1) \<Rightarrow> (Some e, s1)
      | (None, s1) \<Rightarrow> load_connections s1 cns)"

text \<open>
  What the file dialog, \<open>open\<close> and \<open>json.load\<close> hand to \<open>openFile\<close>: no
  file name, a file that cannot be read, a text that is not JSON, or the parsed data.
\<close>

datatype file_input = Cancelled | Unreadable | Unparsable | Parsed document

fun openFile :: "editor \<Rightarrow> file_input \<Rightarrow> error option \<times> editor" where
  "openFile s Cancelled = (None, s)"
| "openFile s Unreadable = (Some OSError, s)"
| "openFile s Unparsable = (Some JSONDecodeError, s)"
| "openFile s (Parsed data) =
     (case load_blocks (newFile s) (get_default (doc_blocks data) []) of
        (Some e, s1) \<Rightarrow> (Some e, s1)
      | (None, s1) \<Rightarrow>
          (case load_clusters s1 (get_default (doc_clusters data) []) of
             (Some e, s2) \<Rightarrow> (Some e, s2)
           | (None, s2) \<Rightarrow> load_connections s2 (get_default (doc_connections data) [])))"

text \<open>The data \<open>saveFile\<close> writes.\<close>

definition save_block :: "editor \<Rightarrow> nat \<Rightarrow> block_data" where
  "save_block s blk =
     (let b = block_objs s ! blk; p = scenePos s b; r = rect b in
      \<lparr>bd_id = Some (block_id b), bd_title = Some (title b), bd_content = Some (content b),
       bd_x = Some (fst p), bd_y = Some (snd p),
       bd_width = Some (rwidth r), bd_height = Some (rheight r),
       bd_color = Some (color b), bd_locked = Some (locked b)\<rparr>)"

definition save_cluster :: "editor \<Rightarrow> int \<times> nat \<Rightarrow> cluster_data" where
  "save_cluster s e =
     (let cl = cluster_objs s ! snd e in
      \<lparr>cd_id = Some (fst e), cd_title = Some (ctitle cl), cd_color = Some (ccolor cl),
       cd_block_ids = Some (map (\<lambda>blk. block_id (block_objs s ! blk)) (cblocks cl)),
       cd_locked = Some (clocked cl)\<rparr>)"

fun save_connections :: "editor \<Rightarrow> connection list \<Rightarrow> connection_data list" where
  "save_connections s [] = []"
| "save_connections s (conn # conns) =
     (case end_anchor conn of
        None \<Rightarrow> save_connections s conns
      | Some e \<Rightarrow>
          \<lparr>cn_start_block_id = Some (block_id (block_objs s ! fst (start_anchor conn))),
           cn_start_anchor = Some (snd (start_anchor conn)),
           cn_end_block_id = Some (block_id (block_objs s ! fst e)),
           cn_end_anchor = Some (snd e)\<rparr> # save_connections s conns)"

definition saveFile :: "editor \<Rightarrow> document" where
  "saveFile s =
     \<lparr>doc_blocks = Some (map (save_block s) (map snd (blocks s))),
      doc_clusters = Some (map (save_cluster s) (clusters s)),
      doc_connections = Some (save_connections s (connections s))\<rparr>"

subsection \<open>The events of the editor\<close>







section \<open>Notions used in the statements\<close>

text \<open>The keys of a block entry that \<open>openFile\<close> reads with \<open>block_data[...]\<close>.\<close>

definition required_present :: "block_data \<Rightarrow> bool" where
  "required_present bd =
     (bd_width bd \<noteq> None \<and> bd_height bd \<noteq> None \<and> bd_title bd \<noteq> None
      \<and> bd_id bd \<noteq> None \<and> bd_x bd \<noteq> None \<and> bd_y bd \<noteq> None)"

text \<open>The block object \<open>openFile\<close> builds from an entry that has those keys.\<close>

definition loaded_block :: "block_data \<Rightarrow> block" where
  "loaded_block bd =
     (block_move (the (bd_x bd), the (bd_y bd))
       ((GraphBlock_init \<lparr>rx = 0, ry = 0, rwidth = the (bd_width bd), rheight = the (bd_height bd)\<rparr>
          (the (bd_title bd)) (the (bd_id bd)))
         \<lparr>content := get_default (bd_content bd) [],
          color := get_default (bd_color bd) ''#ffffff''\<rparr>))
       \<lparr>locked := get_default (bd_locked bd) False\<rparr>"

text \<open>The member blocks a cluster entry resolves to, and the cluster built from it.\<close>

definition members_of :: "editor \<Rightarrow> cluster_data \<Rightarrow> nat list" where
  "members_of s cd = List.map_filter (map_of (blocks s)) (get_default (cd_block_ids cd) [])"

definition loaded_cluster :: "editor \<Rightarrow> cluster_data \<Rightarrow> cluster" where
  "loaded_cluster s cd =
     (GraphCluster_init s (members_of s cd) (the (cd_title cd)))
       \<lparr>ccolor := get_default (cd_color cd) ''#ffeeaa'',
        clocked := get_default (cd_locked cd) False\<rparr>"

text \<open>
  Every registered block and cluster, and both ends of every connection, is an object
  created after the stores had \<open>nb\<close> blocks and \<open>nc\<close> clusters.
\<close>

definition built_since :: "nat \<Rightarrow> nat \<Rightarrow> editor \<Rightarrow> bool" where
  "built_since nb nc s =
     (nb \<le> length (block_objs s) \<and> nc \<le> length (cluster_objs s)
      \<and> list_all (\<lambda>e. nb \<le> snd e) (blocks s)
      \<and> list_all (\<lambda>e. nc \<le> snd e) (clusters s)
      \<and> list_all (\<lambda>conn. nb \<le> fst (start_anchor conn)
             \<and> (case end_anchor conn of None \<Rightarrow> True | Some e \<Rightarrow> nb \<le> fst e))
           (connections s))"

text \<open>
  Every registered block, and every member of every registered cluster, is an object of
  the store whose \<open>block_id\<close> lies in \<open>K\<close>.
\<close>

definition ids_within :: "int set \<Rightarrow> editor \<Rightarrow> bool" where
  "ids_within K s =
     ((\<forall>e \<in> set (blocks s). snd e < length (block_objs s)
          \<and> block_id (block_objs s ! snd e) \<in> K)
      \<and> (\<forall>e \<in> set (clusters s). snd e < length (cluster_objs s)
          \<and> (\<forall>m \<in> set (cblocks (cluster_objs s ! snd e)).
                m < length (block_objs s) \<and> block_id (block_objs s ! m) \<in> K)))"










section \<open>Example editors and documents\<close>

text \<open>Two new blocks at (100, 100) and (400, 100), and the two grouped and selected.\<close>

definition ex_two_blocks :: editor where
  "ex_two_blocks = addBlock 400 100 (addBlock 100 100 GraphEditor_init)"

definition ex_grouped :: editor where
  "ex_grouped =
     setCurrentCluster 0 (groupSelectedBlocks [BlockItem 0, BlockItem 1] ex_two_blocks)"

definition ex_block_1 :: block_data where
  "ex_block_1 =
     \<lparr>bd_id = Some 1, bd_title = Some ''A'', bd_content = Some ''x^2'',
      bd_x = Some 100, bd_y = Some 100, bd_width = Some 150, bd_height = Some 80,
      bd_color = Some ''#ffffff'', bd_locked = Some False\<rparr>"

definition ex_block_2 :: block_data where
  "ex_block_2 =
     \<lparr>bd_id = Some 2, bd_title = Some ''B'', bd_content = Some '''',
      bd_x = Some 400, bd_y = Some 100, bd_width = Some 150, bd_height = Some 80,
      bd_color = Some ''#ff0000'', bd_locked = Some True\<rparr>"

definition ex_cluster_1 :: cluster_data where
  "ex_cluster_1 =
     \<lparr>cd_id = Some 1, cd_title = Some ''AB'', cd_color = Some ''#ffeeaa'',
      cd_block_ids = Some [1, 2], cd_locked = Some False\<rparr>"

definition ex_connection_1 :: connection_data where
  "ex_connection_1 =
     \<lparr>cn_start_block_id = Some 1, cn_start_anchor = Some ''right'',
      cn_end_block_id = Some 2, cn_end_anchor = Some ''left''\<rparr>"

definition ex_document :: document where
  "ex_document =
     \<lparr>doc_blocks = Some [ex_block_1, ex_block_2], doc_clusters = Some [ex_cluster_1],
      doc_connections = Some [ex_connection_1]\<rparr>"

text \<open>
  A third block at (250, 300), and three connections drawn between the three blocks:
  1.right to 2.left, 3.top to 1.bottom and 2.bottom to 3.right.
\<close>

definition ex_connected :: editor where
  "ex_connected =
     endConnection (2, ''right'') (startConnection (1, ''bottom'')
       (endConnection (0, ''bottom'') (startConnection (2, ''top'')
         (endConnection (1, ''left'') (startConnection (0, ''right'')
           (addBlock 250 300 ex_two_blocks))))))"

text \<open>
  The cluster of the two grouped blocks dragged by (50, 0); and then a third block
  added at (300, 150), inside the cluster's scene rectangle, and the cluster selected.
\<close>

definition ex_moved :: editor where
  "ex_moved = moveCluster 0 (50, 0) ex_grouped"

definition ex_attach :: editor where
  "ex_attach = setCurrentCluster 0 (addBlock 300 150 ex_moved)"

text \<open>
  The document the editor saves after the blocks of the grouped cluster have been
  detached: two blocks and a cluster whose \<open>block_ids\<close> is empty.
\<close>

definition ex_document_detached :: document where
  "ex_document_detached = saveFile (detachClusterBlocks ex_grouped)"

text \<open>The same document with an anchor name that no block has, at the start or at the end.\<close>

definition ex_document_bad_start :: document where
  "ex_document_bad_start =
     ex_document\<lparr>doc_connections := Some [ex_connection_1\<lparr>cn_start_anchor := Some ''middle''\<rparr>]\<rparr>"

definition ex_document_bad_end :: document where
  "ex_document_bad_end =
     ex_document\<lparr>doc_connections := Some [ex_connection_1\<lparr>cn_end_anchor := Some ''middle''\<rparr>]\<rparr>"

text \<open>A document whose second block entry has no \<open>width\<close>.\<close>

definition ex_document_no_width :: document where
  "ex_document_no_width =
     \<lparr>doc_blocks = Some [ex_block_1\<lparr>bd_id := Some 7\<rparr>, ex_block_2\<lparr>bd_width := None\<rparr>],
      doc_clusters = Some [], doc_connections = Some []\<rparr>"

section \<open>Evaluating the examples\<close>

lemmas eval_defs =
  ex_two_blocks_def ex_grouped_def ex_connected_def ex_moved_def ex_attach_def
  ex_block_1_def ex_block_2_def
  ex_cluster_1_def ex_connection_1_def ex_document_def ex_document_bad_start_def
  ex_document_bad_end_def ex_document_no_width_def ex_document_detached_def
  GraphEditor_init_def addBlock_def moveBlock_def moveCluster_def cluster_move_def
  setCurrentBlock_def setCurrentCluster_def
  GraphBlock_init_def updateAnchors_def anchor_setPos_def orientations_def block_move_def
  HANDLE_SIZE_def groupSelectedBlocks_def selected_blocks_def GraphCluster_init_def
  setParentItem_def sceneBoundingRect_def cluster_sceneBoundingRect_def scenePos_def
  boundingRect_def translated_def adjust_def united_def contains_def isNull_def
  QRectF_null_def PEN_HALF_WIDTH_def padd_def psub_def
  detachClusterBlocks_def attachClusterBlocks_def attach_block_def
  startConnection_def endConnection_def cancelConnection_def touches_def deleteSelected_def
  saveEdit_def setTitle_def setBlockRect_def
  newFile_def load_block_def load_cluster_def load_connection_def anchors_get_def
  create_line_item_def get_default_def
  saveFile_def save_block_def save_cluster_def
  NEW_BLOCK_TITLE_def CLUSTER_TITLE_PREFIX_def str_int_def Let_def

section \<open>Anchor placement\<close>





section \<open>Loading a document\<close>

lemma load_block_ok:
  assumes "required_present bd"
  shows "load_block s bd =
      (None, s\<lparr>block_objs := block_objs s @ [loaded_block bd],
               blocks := AList.update (the (bd_id bd)) (length (block_objs s)) (blocks s),
               block_id_counter := max (block_id_counter s) (the (bd_id bd) + 1)\<rparr>)"
proof -
  from assms obtain w h t bid x y where f:
    "bd_width bd = Some w" "bd_height bd = Some h" "bd_title bd = Some t"
    "bd_id bd = Some bid" "bd_x bd = Some x" "bd_y bd = Some y"
    by (auto simp: required_present_def)
  show ?thesis
    by (cases "block_id_counter s \<le> bid")
       (simp_all add: load_block_def f Let_def loaded_block_def max_def)
qed

lemma load_block_missing:
  assumes "\<not> required_present bd"
  shows "load_block s bd = (Some KeyError, s)"
  using assms by (auto simp: load_block_def required_present_def split: option.splits)


lemma load_cluster_empty:
  "members_of s cd = [] \<Longrightarrow> load_cluster s cd = (None, s)"
  by (simp add: load_cluster_def members_of_def)

lemma load_cluster_missing:
  "members_of s cd \<noteq> [] \<Longrightarrow> cd_title cd = None \<or> cd_id cd = None \<Longrightarrow>
   load_cluster s cd = (Some KeyError, s)"
  by (auto simp: load_cluster_def members_of_def Let_def split: option.splits)

lemma load_cluster_ok:
  "members_of s cd \<noteq> [] \<Longrightarrow> cd_title cd \<noteq> None \<Longrightarrow> cd_id cd \<noteq> None \<Longrightarrow>
   load_cluster s cd =
     (None, s\<lparr>cluster_objs := cluster_objs s @ [loaded_cluster s cd],
              clusters := AList.update (the (cd_id cd)) (length (cluster_objs s)) (clusters s)\<rparr>)"
  by (auto simp: load_cluster_def members_of_def loaded_cluster_def Let_def split: option.splits)

lemma load_connection_cases:
  "load_connection s cn = (Some KeyError, s)
   \<or> load_connection s cn = (Some AttributeError, s)
   \<or> load_connection s cn = (None, s)
   \<or> (\<exists>sb eb so eo sid eid.
         cn_start_block_id cn = Some sid \<and> cn_end_block_id cn = Some eid
         \<and> cn_start_anchor cn = Some so \<and> cn_end_anchor cn = Some eo
         \<and> map_of (blocks s) sid = Some sb \<and> map_of (blocks s) eid = Some eb
         \<and> anchors_get s sb so = Some (sb, so)
         \<and> load_connection s cn =
             (None, s\<lparr>connections := connections s @
                        [\<lparr>start_anchor = (sb, so), end_anchor = anchors_get s eb eo\<rparr>]\<rparr>))"
  by (auto simp: load_connection_def create_line_item_def anchors_get_def Let_def
      split: option.splits)

lemma load_blocks_preserves:
  assumes "P s" and "\<And>s bd. P s \<Longrightarrow> P (snd (load_block s bd))"
  shows "P (snd (load_blocks s bds))"
  using assms(1)
proof (induction bds arbitrary: s)
  case Nil
  then show ?case by simp
next
  case (Cons bd bds)
  obtain e s1 where l: "load_block s bd = (e, s1)" by (cases "load_block s bd")
  from assms(2) [OF Cons.prems, of bd] l have p1: "P s1" by simp
  show ?case
  proof (cases e)
    case None
    with l Cons.IH [OF p1] show ?thesis by simp
  next
    case (Some err)
    with l p1 show ?thesis by simp
  qed
qed

lemma load_clusters_preserves:
  assumes "P s" and "\<And>s cd. P s \<Longrightarrow> P (snd (load_cluster s cd))"
  shows "P (snd (load_clusters s cds))"
  using assms(1)
proof (induction cds arbitrary: s)
  case Nil
  then show ?case by simp
next
  case (Cons cd cds)
  obtain e s1 where l: "load_cluster s cd = (e, s1)" by (cases "load_cluster s cd")
  from assms(2) [OF Cons.prems, of cd] l have p1: "P s1" by simp
  show ?case
  proof (cases e)
    case None
    with l Cons.IH [OF p1] show ?thesis by simp
  next
    case (Some err)
    with l p1 show ?thesis by simp
  qed
qed

lemma load_connections_preserves:
  assumes "P s" and "\<And>s cn. P s \<Longrightarrow> P (snd (load_connection s cn))"
  shows "P (snd (load_connections s cns))"
  using assms(1)
proof (induction cns arbitrary: s)
  case Nil
  then show ?case by simp
next
  case (Cons cn cns)
  obtain e s1 where l: "load_connection s cn = (e, s1)" by (cases "load_connection s cn")
  from assms(2) [OF Cons.prems, of cn] l have p1: "P s1" by simp
  show ?case
  proof (cases e)
    case None
    with l Cons.IH [OF p1] show ?thesis by simp
  next
    case (Some err)
    with l p1 show ?thesis by simp
  qed
qed

lemma openFile_Parsed_preserves:
  assumes "P (newFile s)"
    and "\<And>s bd. P s \<Longrightarrow> P (snd (load_block s bd))"
    and "\<And>s cd. P s \<Longrightarrow> P (snd (load_cluster s cd))"
    and "\<And>s cn. P s \<Longrightarrow> P (snd (load_connection s cn))"
  shows "P (snd (openFile s (Parsed d)))"
proof -
  let ?bs = "get_default (doc_blocks d) []"
  let ?cs = "get_default (doc_clusters d) []"
  let ?ns = "get_default (doc_connections d) []"
  obtain e1 s1 where l1: "load_blocks (newFile s) ?bs = (e1, s1)"
    by (cases "load_blocks (newFile s) ?bs")
  obtain e2 s2 where l2: "load_clusters s1 ?cs = (e2, s2)"
    by (cases "load_clusters s1 ?cs")
  from load_blocks_preserves [of P, OF assms(1) assms(2), of ?bs] l1 have p1: "P s1" by simp
  from load_clusters_preserves [of P, OF p1 assms(3), of ?cs] l2 have p2: "P s2" by simp
  from load_connections_preserves [of P, OF p2 assms(4), of ?ns]
  have p3: "P (snd (load_connections s2 ?ns))" .
  show ?thesis
    using l1 l2 p1 p2 p3 by (cases e1; cases e2) simp_all
qed

lemma cluster_counter_load_block: "cluster_id_counter (snd (load_block s bd)) = cluster_id_counter s"
  by (cases "required_present bd") (simp_all add: load_block_ok load_block_missing)

lemma cluster_counter_load_cluster: "cluster_id_counter (snd (load_cluster s cd)) = cluster_id_counter s"
  by (cases "members_of s cd = []"; cases "cd_title cd = None \<or> cd_id cd = None")
     (auto simp: load_cluster_empty load_cluster_missing load_cluster_ok)

lemma cluster_counter_load_connection:
  "cluster_id_counter (snd (load_connection s cn)) = cluster_id_counter s"
  using load_connection_cases [of s cn] by auto

lemma cluster_counter_openFile: "cluster_id_counter (snd (openFile s (Parsed d))) = 1"
  by (rule openFile_Parsed_preserves [where P = "\<lambda>s. cluster_id_counter s = 1"])
     (simp_all add: newFile_def cluster_counter_load_block cluster_counter_load_cluster
       cluster_counter_load_connection)


lemma list_all_update:
  "list_all P al \<Longrightarrow> P (k, v) \<Longrightarrow> list_all P (AList.update k v al)"
  by (induction al) auto

lemma block_counter_load_block:
  assumes "list_all (\<lambda>e. fst e < block_id_counter s) (blocks s)"
  shows "list_all (\<lambda>e. fst e < block_id_counter (snd (load_block s bd)))
           (blocks (snd (load_block s bd)))"
proof (cases "required_present bd")
  case True
  let ?c = "max (block_id_counter s) (the (bd_id bd) + 1)"
  from assms have "list_all (\<lambda>e. fst e < ?c) (blocks s)"
    by (auto simp: list_all_iff)
  then have "list_all (\<lambda>e. fst e < ?c)
      (AList.update (the (bd_id bd)) (length (block_objs s)) (blocks s))"
    by (rule list_all_update) simp
  with True show ?thesis by (simp add: load_block_ok)
next
  case False
  with assms show ?thesis by (simp add: load_block_missing)
qed

lemma block_counter_load_cluster:
  assumes "list_all (\<lambda>e. fst e < block_id_counter s) (blocks s)"
  shows "list_all (\<lambda>e. fst e < block_id_counter (snd (load_cluster s cd)))
           (blocks (snd (load_cluster s cd)))"
  using assms
  by (cases "members_of s cd = []"; cases "cd_title cd = None \<or> cd_id cd = None")
     (auto simp: load_cluster_empty load_cluster_missing load_cluster_ok)

lemma block_counter_load_connection:
  assumes "list_all (\<lambda>e. fst e < block_id_counter s) (blocks s)"
  shows "list_all (\<lambda>e. fst e < block_id_counter (snd (load_connection s cn)))
           (blocks (snd (load_connection s cn)))"
  using load_connection_cases [of s cn] assms by auto

lemma block_counter_openFile:
  "list_all (\<lambda>e. fst e < block_id_counter (snd (openFile s (Parsed d))))
     (blocks (snd (openFile s (Parsed d))))"
  by (rule openFile_Parsed_preserves
        [where P = "\<lambda>s. list_all (\<lambda>e. fst e < block_id_counter s) (blocks s)"])
     (simp_all add: newFile_def block_counter_load_block block_counter_load_cluster
       block_counter_load_connection)

lemma built_since_load_block:
  assumes "built_since nb nc s"
  shows "built_since nb nc (snd (load_block s bd))"
proof (cases "required_present bd")
  case True
  with assms show ?thesis
    by (simp add: load_block_ok built_since_def list_all_update)
next
  case False
  with assms show ?thesis by (simp add: load_block_missing)
qed

lemma built_since_load_cluster:
  assumes "built_since nb nc s"
  shows "built_since nb nc (snd (load_cluster s cd))"
proof (cases "members_of s cd = []")
  case True
  with assms show ?thesis by (simp add: load_cluster_empty)
next
  case False
  show ?thesis
  proof (cases "cd_title cd = None \<or> cd_id cd = None")
    case True
    with False assms show ?thesis by (simp add: load_cluster_missing)
  next
    case False
    with \<open>members_of s cd \<noteq> []\<close> assms show ?thesis
      by (simp add: load_cluster_ok built_since_def list_all_update)
  qed
qed

lemma built_since_load_connection:
  assumes "built_since nb nc s"
  shows "built_since nb nc (snd (load_connection s cn))"
proof -
  have reg: "nb \<le> r" if "map_of (blocks s) k = Some r" for k r
  proof -
    from that have "(k, r) \<in> set (blocks s)" by (rule map_of_SomeD)
    with assms show ?thesis by (auto simp: built_since_def list_all_iff)
  qed
  from load_connection_cases [of s cn] show ?thesis
  proof (elim disjE exE conjE)
    fix sb eb so eo sid eid
    assume sb: "map_of (blocks s) sid = Some sb" and eb: "map_of (blocks s) eid = Some eb"
      and l: "load_connection s cn =
             (None, s\<lparr>connections := connections s @
                        [\<lparr>start_anchor = (sb, so), end_anchor = anchors_get s eb eo\<rparr>]\<rparr>)"
    have "case anchors_get s eb eo of None \<Rightarrow> True | Some e \<Rightarrow> nb \<le> fst e"
      using reg [OF eb] by (simp add: anchors_get_def split: option.splits)
    with assms reg [OF sb] l show ?thesis by (simp add: built_since_def)
  qed (use assms in simp_all)
qed

lemma built_since_openFile:
  "built_since (length (block_objs s)) (length (cluster_objs s)) (snd (openFile s (Parsed d)))"
  by (rule openFile_Parsed_preserves)
     (simp_all add: built_since_load_block built_since_load_cluster built_since_load_connection,
      simp add: built_since_def newFile_def)

section \<open>Claims about loading\<close>

text \<open>
  C2. The claim says that a connection entry whose anchor name is not one of the four
  orientations is silently dropped. The code at such entries: with the unknown name at
  the start of the connection, \<open>openFile\<close> stops with an \<open>AttributeError\<close> and no
  connection is loaded; with the unknown name at the end, the entry is not dropped but
  kept in the connection list as a connection without an end, the rest of the editor
  being what the well-formed document gives.
\<close>

theorem load_invalid_anchor_name:
  "fst (openFile GraphEditor_init (Parsed ex_document_bad_start)) = Some AttributeError
   \<and> connections (snd (openFile GraphEditor_init (Parsed ex_document_bad_start))) = []
   \<and> openFile GraphEditor_init (Parsed ex_document_bad_end) =
       (None, (snd (openFile GraphEditor_init (Parsed ex_document)))
                \<lparr>connections := [\<lparr>start_anchor = (0, ''right''), end_anchor = None\<rparr>]\<rparr>)"
  by (simp add: eval_defs)

text \<open>
  C3, as stated, fails: an editor holding the blocks 1 and 2 opens a document whose
  second block entry lacks its width. The load stops with a \<open>KeyError\<close>, and the
  editor then holds block 7 of the new document instead of its blocks 1 and 2.
\<close>

theorem load_failure_partway_example:
  "fst (openFile ex_two_blocks (Parsed ex_document_no_width)) = Some KeyError
   \<and> blocks ex_two_blocks = [(1, 0), (2, 1)]
   \<and> blocks (snd (openFile ex_two_blocks (Parsed ex_document_no_width))) = [(7, 2)]"
  by (simp add: eval_defs)

text \<open>
  C3, amended. When no file is chosen, the file cannot be read or its text is not JSON,
  the editor is left exactly as it was. Once the text has parsed, the previous document
  is cleared before any entity is built: after the load, whether it succeeded or
  stopped at a malformed entry, every registered block and cluster and both ends of
  every connection are objects built by this load.
\<close>

theorem openFile_failure_state:
  "openFile s Cancelled = (None, s)
   \<and> openFile s Unreadable = (Some OSError, s)
   \<and> openFile s Unparsable = (Some JSONDecodeError, s)
   \<and> built_since (length (block_objs s)) (length (cluster_objs s))
        (snd (openFile s (Parsed d)))"
  using built_since_openFile [of s d] by simp

text \<open>
  C6. The claim says that loading bumps the cluster counter past every loaded cluster
  id, as it does the block counter. The code: after opening any parsed document the
  block counter is greater than every registered block id, and the cluster counter is
  1. For the example document, which holds a cluster with id 1, grouping the two loaded
  blocks then registers the new cluster under the id 1, in the place of the loaded one.
\<close>

theorem load_keeps_cluster_counter:
  "list_all (\<lambda>e. fst e < block_id_counter (snd (openFile s (Parsed d))))
     (blocks (snd (openFile s (Parsed d))))
   \<and> cluster_id_counter (snd (openFile s (Parsed d))) = 1
   \<and> clusters (snd (openFile GraphEditor_init (Parsed ex_document))) = [(1, 0)]
   \<and> clusters (groupSelectedBlocks [BlockItem 0, BlockItem 1]
        (snd (openFile GraphEditor_init (Parsed ex_document)))) = [(1, 1)]"
proof -
  have "clusters (snd (openFile GraphEditor_init (Parsed ex_document))) = [(1, 0)]
   \<and> clusters (groupSelectedBlocks [BlockItem 0, BlockItem 1]
        (snd (openFile GraphEditor_init (Parsed ex_document)))) = [(1, 1)]"
    by (simp add: eval_defs)
  with cluster_counter_openFile [of s d] block_counter_openFile [of s d] show ?thesis by simp
qed


section \<open>Claims about the edit panel\<close>

text \<open>
  C9. The claim says that saving the edit panel sets the rectangle of the current
  cluster to the entered width and height. The code at the cluster of the two grouped
  blocks with the title C and the numbers 300 and 200 entered: the title of the cluster
  becomes C, its rectangle stays what it was, which is not a rectangle of width 300 and
  height 200, and no block object changes.
\<close>

theorem saveEdit_cluster_keeps_rect_example:
  "currentCluster ex_grouped = Some 0 \<and> currentBlock ex_grouped = None
   \<and> ctitle (cluster_objs (saveEdit ''C'' [] (Some 300) (Some 200) ex_grouped) ! 0) = ''C''
   \<and> crect (cluster_objs (saveEdit ''C'' [] (Some 300) (Some 200) ex_grouped) ! 0)
       = crect (cluster_objs ex_grouped ! 0)
   \<and> rwidth (crect (cluster_objs (saveEdit ''C'' [] (Some 300) (Some 200) ex_grouped) ! 0))
       \<noteq> 300
   \<and> rheight (crect (cluster_objs (saveEdit ''C'' [] (Some 300) (Some 200) ex_grouped) ! 0))
       \<noteq> 200
   \<and> block_objs (saveEdit ''C'' [] (Some 300) (Some 200) ex_grouped) = block_objs ex_grouped"
  by (simp add: eval_defs)

section \<open>Claims about deleting a block\<close>

lemma remove_touching_aux:
  "list_all (\<lambda>c. \<not> P c) us \<Longrightarrow>
   foldl (\<lambda>cs conn. if conn \<in> set cs then remove1 conn cs else cs) (us @ xs) (filter P xs)
     = us @ filter (\<lambda>c. \<not> P c) xs"
proof (induction xs arbitrary: us)
  case Nil
  then show ?case by simp
next
  case (Cons x xs)
  show ?case
  proof (cases "P x")
    case True
    with Cons.prems have "x \<notin> set us" by (auto simp: list_all_iff)
    then have "remove1 x (us @ x # xs) = us @ xs" by (simp add: remove1_append)
    with True Cons.IH [OF Cons.prems] show ?thesis by simp
  next
    case False
    with Cons.prems have "list_all (\<lambda>c. \<not> P c) (us @ [x])" by simp
    from Cons.IH [OF this] False show ?thesis by simp
  qed
qed

lemma remove_touching:
  "foldl (\<lambda>cs conn. if conn \<in> set cs then remove1 conn cs else cs) xs (filter P xs)
     = filter (\<lambda>c. \<not> P c) xs"
  using remove_touching_aux [of P "[]" xs] by simp

lemma delete_block_item:
  assumes "map_of (blocks s) (block_id (block_objs s ! a)) = Some a"
  shows "delete_item s (BlockItem a) =
           s\<lparr>connections := filter (\<lambda>conn. \<not> touches a conn) (connections s),
             blocks := filter (\<lambda>e. fst e \<noteq> block_id (block_objs s ! a)) (blocks s)\<rparr>"
proof -
  from assms have "(block_id (block_objs s ! a), a) \<in> set (blocks s)" by (rule map_of_SomeD)
  then have "block_id (block_objs s ! a) \<in> fst ` set (blocks s)" by force
  moreover have "AList.delete k al = filter (\<lambda>e. fst e \<noteq> k) al" for k :: int and al :: "(int \<times> nat) list"
    by (induction al) (auto simp: AList.delete_eq)
  ultimately show ?thesis
    by (simp add: Let_def remove_touching)
qed




lemma set_update_subset: "set (AList.update k v al) \<subseteq> insert (k, v) (set al)"
  by (induction al) auto

lemma block_id_loaded_block: "block_id (loaded_block bd) = the (bd_id bd)"
  by (simp add: loaded_block_def block_move_def GraphBlock_init_def updateAnchors_def
      anchor_setPos_def Let_def)

lemma ids_within_load_block:
  assumes "ids_within K s" and "required_present bd \<Longrightarrow> the (bd_id bd) \<in> K"
  shows "ids_within K (snd (load_block s bd))"
proof (cases "required_present bd")
  case False
  with assms show ?thesis by (simp add: load_block_missing)
next
  case True
  let ?n = "length (block_objs s)"
  let ?objs = "block_objs s @ [loaded_block bd]"
  have old: "?objs ! r = block_objs s ! r" if "r < ?n" for r
    using that by (simp add: nth_append)
  have new: "block_id (?objs ! ?n) \<in> K"
    using assms(2) True by (simp add: block_id_loaded_block)
  have b: "snd e < length ?objs \<and> block_id (?objs ! snd e) \<in> K"
    if "e \<in> set (AList.update (the (bd_id bd)) ?n (blocks s))" for e
  proof -
    from that set_update_subset have "e = (the (bd_id bd), ?n) \<or> e \<in> set (blocks s)" by fastforce
    then show ?thesis
    proof
      assume "e = (the (bd_id bd), ?n)"
      with new show ?thesis by simp
    next
      assume "e \<in> set (blocks s)"
      with assms(1) have "snd e < ?n" "block_id (block_objs s ! snd e) \<in> K"
        by (auto simp: ids_within_def)
      with old show ?thesis by simp
    qed
  qed
  have c: "snd e < length (cluster_objs s)
      \<and> (\<forall>m \<in> set (cblocks (cluster_objs s ! snd e)). m < length ?objs \<and> block_id (?objs ! m) \<in> K)"
    if "e \<in> set (clusters s)" for e
  proof -
    from that assms(1) have l: "snd e < length (cluster_objs s)"
      and m: "\<forall>m \<in> set (cblocks (cluster_objs s ! snd e)).
                m < ?n \<and> block_id (block_objs s ! m) \<in> K"
      by (auto simp: ids_within_def)
    from m old have "\<forall>m \<in> set (cblocks (cluster_objs s ! snd e)).
                m < length ?objs \<and> block_id (?objs ! m) \<in> K" by auto
    with l show ?thesis by simp
  qed
  from b c show ?thesis
    by (simp add: load_block_ok [OF True] ids_within_def)
qed

lemma set_members_of: "set (members_of s cd) \<subseteq> snd ` set (blocks s)"
proof
  fix r assume "r \<in> set (members_of s cd)"
  then obtain k where "map_of (blocks s) k = Some r"
    by (auto simp: members_of_def List.map_filter_def)
  then have "(k, r) \<in> set (blocks s)" by (rule map_of_SomeD)
  then show "r \<in> snd ` set (blocks s)" by force
qed

lemma cblocks_loaded_cluster: "cblocks (loaded_cluster s cd) = members_of s cd"
  by (simp add: loaded_cluster_def GraphCluster_init_def)

lemma ids_within_load_cluster:
  assumes "ids_within K s"
  shows "ids_within K (snd (load_cluster s cd))"
proof (cases "members_of s cd = []")
  case True
  with assms show ?thesis by (simp add: load_cluster_empty)
next
  case ne: False
  show ?thesis
  proof (cases "cd_title cd = None \<or> cd_id cd = None")
    case True
    with ne assms show ?thesis by (simp add: load_cluster_missing)
  next
    case False
    let ?n = "length (cluster_objs s)"
    let ?objs = "cluster_objs s @ [loaded_cluster s cd]"
    have mem: "m < length (block_objs s) \<and> block_id (block_objs s ! m) \<in> K"
      if "m \<in> set (members_of s cd)" for m
    proof -
      from that set_members_of obtain e where "e \<in> set (blocks s)" "snd e = m" by fastforce
      with assms show ?thesis by (auto simp: ids_within_def)
    qed
    have c: "snd e < length ?objs
      \<and> (\<forall>m \<in> set (cblocks (?objs ! snd e)).
            m < length (block_objs s) \<and> block_id (block_objs s ! m) \<in> K)"
      if "e \<in> set (AList.update (the (cd_id cd)) ?n (clusters s))" for e
    proof -
      from that set_update_subset have "e = (the (cd_id cd), ?n) \<or> e \<in> set (clusters s)"
        by fastforce
      then show ?thesis
      proof
        assume "e = (the (cd_id cd), ?n)"
        with mem show ?thesis by (simp add: cblocks_loaded_cluster)
      next
        assume e: "e \<in> set (clusters s)"
        with assms have l: "snd e < ?n" by (auto simp: ids_within_def)
        from e assms have "\<forall>m \<in> set (cblocks (cluster_objs s ! snd e)).
            m < length (block_objs s) \<and> block_id (block_objs s ! m) \<in> K"
          by (auto simp: ids_within_def)
        with l show ?thesis by (simp add: nth_append)
      qed
    qed
    have b: "\<forall>e \<in> set (blocks s). snd e < length (block_objs s)
          \<and> block_id (block_objs s ! snd e) \<in> K"
      using assms by (simp add: ids_within_def)
    from False ne b c show ?thesis
      by (simp add: load_cluster_ok ids_within_def)
  qed
qed

lemma ids_within_load_connection:
  assumes "ids_within K s"
  shows "ids_within K (snd (load_connection s cn))"
proof -
  have "ids_within K (s\<lparr>connections := cs\<rparr>)" for cs
    using assms by (simp add: ids_within_def)
  with assms load_connection_cases [of s cn] show ?thesis
    by (elim disjE exE conjE) simp_all
qed


lemma load_blocks_preserves_in:
  assumes "P s" and "\<And>s bd. bd \<in> set bds \<Longrightarrow> P s \<Longrightarrow> P (snd (load_block s bd))"
  shows "P (snd (load_blocks s bds))"
  using assms
proof (induction bds arbitrary: s)
  case Nil
  then show ?case by simp
next
  case (Cons bd bds)
  obtain e s1 where l: "load_block s bd = (e, s1)" by (cases "load_block s bd")
  from Cons.prems(2) [of bd s] Cons.prems(1) l have p1: "P s1" by simp
  have "P (snd (load_blocks s1 bds))"
    by (rule Cons.IH [OF p1]) (simp add: Cons.prems(2))
  with l p1 show ?case by (cases e) simp_all
qed

lemma ids_within_openFile:
  "ids_within (set (List.map_filter bd_id (get_default (doc_blocks d) [])))
     (snd (openFile s (Parsed d)))"
proof -
  let ?bs = "get_default (doc_blocks d) []"
  let ?K = "set (List.map_filter bd_id ?bs)"
  let ?cs = "get_default (doc_clusters d) []"
  let ?ns = "get_default (doc_connections d) []"
  obtain e1 s1 where l1: "load_blocks (newFile s) ?bs = (e1, s1)"
    by (cases "load_blocks (newFile s) ?bs")
  obtain e2 s2 where l2: "load_clusters s1 ?cs = (e2, s2)"
    by (cases "load_clusters s1 ?cs")
  have p0: "ids_within ?K (newFile s)" by (simp add: ids_within_def newFile_def)
  have step: "ids_within ?K (snd (load_block s' bd))"
    if "bd \<in> set ?bs" "ids_within ?K s'" for s' bd
  proof (rule ids_within_load_block [OF that(2)])
    assume "required_present bd"
    then obtain bid where "bd_id bd = Some bid" by (auto simp: required_present_def)
    with that(1) show "the (bd_id bd) \<in> ?K"
      by (force simp: List.map_filter_def)
  qed
  have "ids_within ?K (snd (load_blocks (newFile s) ?bs))"
    using p0 step by (rule load_blocks_preserves_in)
  with l1 have p1: "ids_within ?K s1" by simp
  from load_clusters_preserves [of "ids_within ?K", OF p1 ids_within_load_cluster, of ?cs] l2
  have p2: "ids_within ?K s2" by simp
  from load_connections_preserves [of "ids_within ?K", OF p2 ids_within_load_connection, of ?ns]
  have p3: "ids_within ?K (snd (load_connections s2 ?ns))" .
  show ?thesis
    using l1 l2 p1 p2 p3 by (cases e1; cases e2) simp_all
qed


lemma saved_cluster_ids_within:
  assumes "ids_within K s" and "cd \<in> set (get_default (doc_clusters (saveFile s)) [])"
  shows "set (get_default (cd_block_ids cd) []) \<subseteq> K"
proof -
  from assms(2) obtain e where e: "e \<in> set (clusters s)" and cd: "cd = save_cluster s e"
    by (auto simp: saveFile_def get_default_def)
  from assms(1) e have "\<forall>m \<in> set (cblocks (cluster_objs s ! snd e)). block_id (block_objs s ! m) \<in> K"
    by (auto simp: ids_within_def)
  with cd show ?thesis
    by (auto simp: save_cluster_def get_default_def Let_def)
qed

text \<open>
  C10. Let block \<open>a\<close> be registered under its id, every registry key be the id of
  its block, and \<open>a\<close> be a member of the cluster registered as \<open>(k, c)\<close>.
  After deleting the selection \<open>a\<close> the member list of the cluster is what it was,
  so still holds \<open>a\<close>; the document then saved has the cluster entry with the id
  of \<open>a\<close> among its \<open>block_ids\<close> and no block entry with that id; and after
  opening that document, in any editor, no cluster has that id among its members.
\<close>

theorem delete_member_stays_in_cluster:
  assumes reg: "map_of (blocks s) (block_id (block_objs s ! a)) = Some a"
    and keyed: "list_all (\<lambda>e. block_id (block_objs s ! snd e) = fst e) (blocks s)"
    and cl: "(k, c) \<in> set (clusters s)"
    and mem: "a \<in> set (cblocks (cluster_objs s ! c))"
  shows "cblocks (cluster_objs (deleteSelected [BlockItem a] s) ! c) = cblocks (cluster_objs s ! c)
    \<and> save_cluster (deleteSelected [BlockItem a] s) (k, c)
        \<in> set (get_default (doc_clusters (saveFile (deleteSelected [BlockItem a] s))) [])
    \<and> block_id (block_objs s ! a)
        \<in> set (get_default (cd_block_ids (save_cluster (deleteSelected [BlockItem a] s) (k, c))) [])
    \<and> Some (block_id (block_objs s ! a))
        \<notin> bd_id ` set (get_default (doc_blocks (saveFile (deleteSelected [BlockItem a] s))) [])
    \<and> list_all (\<lambda>cd. block_id (block_objs s ! a) \<notin> set (get_default (cd_block_ids cd) []))
        (get_default (doc_clusters (saveFile (snd
           (openFile t (Parsed (saveFile (deleteSelected [BlockItem a] s))))))) [])"
proof -
  let ?bid = "block_id (block_objs s ! a)"
  let ?s' = "deleteSelected [BlockItem a] s"
  let ?d = "saveFile ?s'"
  have s': "?s' = s\<lparr>connections := filter (\<lambda>conn. \<not> touches a conn) (connections s),
                    blocks := filter (\<lambda>e. fst e \<noteq> ?bid) (blocks s)\<rparr>"
    by (simp add: deleteSelected_def delete_block_item [OF reg] del: delete_item.simps)
  have c1: "cblocks (cluster_objs ?s' ! c) = cblocks (cluster_objs s ! c)"
    by (simp add: s')
  have c2: "save_cluster ?s' (k, c) \<in> set (get_default (doc_clusters ?d) [])"
    using cl by (simp add: saveFile_def get_default_def s')
  have c3: "?bid \<in> set (get_default (cd_block_ids (save_cluster ?s' (k, c))) [])"
    using mem by (simp add: save_cluster_def get_default_def s' Let_def)
  have ids: "bd_id ` set (get_default (doc_blocks ?d) [])
      = (\<lambda>e. Some (block_id (block_objs s ! snd e))) ` set (blocks ?s')"
    by (simp add: saveFile_def get_default_def save_block_def Let_def s' image_image)
  have c4: "Some ?bid \<notin> bd_id ` set (get_default (doc_blocks ?d) [])"
  proof
    assume "Some ?bid \<in> bd_id ` set (get_default (doc_blocks ?d) [])"
    with ids obtain e where e: "e \<in> set (blocks ?s')" and eq: "block_id (block_objs s ! snd e) = ?bid"
      by auto
    from e have "e \<in> set (blocks s)" and ne: "fst e \<noteq> ?bid" by (simp_all add: s')
    with keyed have "block_id (block_objs s ! snd e) = fst e" by (auto simp: list_all_iff)
    with eq ne show False by simp
  qed
  let ?t' = "snd (openFile t (Parsed ?d))"
  let ?K = "set (List.map_filter bd_id (get_default (doc_blocks ?d) []))"
  have notK: "?bid \<notin> ?K"
  proof
    assume "?bid \<in> ?K"
    then obtain bd where "bd \<in> set (get_default (doc_blocks ?d) [])" "bd_id bd = Some ?bid"
      by (auto simp: List.map_filter_def)
    then have "Some ?bid \<in> bd_id ` set (get_default (doc_blocks ?d) [])" by force
    with c4 show False by simp
  qed
  have c5: "list_all (\<lambda>cd. ?bid \<notin> set (get_default (cd_block_ids cd) []))
              (get_default (doc_clusters (saveFile ?t')) [])"
    unfolding list_all_iff
  proof
    fix cd assume "cd \<in> set (get_default (doc_clusters (saveFile ?t')) [])"
    from saved_cluster_ids_within [OF ids_within_openFile this] notK
    show "?bid \<notin> set (get_default (cd_block_ids cd) [])" by auto
  qed
  from c1 c2 c3 c4 c5 show ?thesis by blast
qed



theorem delete_member_stays_in_cluster_witness:
  "map_of (blocks ex_grouped) (block_id (block_objs ex_grouped ! 0)) = Some 0
   \<and> list_all (\<lambda>e. block_id (block_objs ex_grouped ! snd e) = fst e) (blocks ex_grouped)
   \<and> (1, 0) \<in> set (clusters ex_grouped)
   \<and> 0 \<in> set (cblocks (cluster_objs ex_grouped ! 0))
   \<and> block_id (block_objs ex_grouped ! 0) = 1
   \<and> cblocks (cluster_objs (deleteSelected [BlockItem 0] ex_grouped) ! 0) = [0, 1]
   \<and> 1 \<in> set (get_default
         (cd_block_ids (save_cluster (deleteSelected [BlockItem 0] ex_grouped) (1, 0))) [])
   \<and> Some 1 \<notin> bd_id `
         set (get_default (doc_blocks (saveFile (deleteSelected [BlockItem 0] ex_grouped))) [])
   \<and> list_all (\<lambda>cd. 1 \<notin> set (get_default (cd_block_ids cd) []))
        (get_default (doc_clusters (saveFile (snd (openFile GraphEditor_init
           (Parsed (saveFile (deleteSelected [BlockItem 0] ex_grouped))))))) [])"
proof -
  have h1: "map_of (blocks ex_grouped) (block_id (block_objs ex_grouped ! 0)) = Some 0"
    by (simp add: eval_defs)
  have h2: "list_all (\<lambda>e. block_id (block_objs ex_grouped ! snd e) = fst e) (blocks ex_grouped)"
    by (simp add: eval_defs)
  have h3: "(1, 0) \<in> set (clusters ex_grouped)"
    by (simp add: eval_defs)
  have h4: "0 \<in> set (cblocks (cluster_objs ex_grouped ! 0))"
    by (simp add: eval_defs)
  have e: "block_id (block_objs ex_grouped ! 0) = 1 \<and> cblocks (cluster_objs ex_grouped ! 0) = [0, 1]"
    by (simp add: eval_defs)
  from delete_member_stays_in_cluster [OF h1 h2 h3 h4, of GraphEditor_init] e h1 h2 h3 h4
  show ?thesis by simp
qed


section \<open>Claims about reparenting\<close>

lemma reparent_all_frame:
  "cluster_objs (foldl (\<lambda>st blk. setParentItem blk p st) s ms) = cluster_objs s
   \<and> length (block_objs (foldl (\<lambda>st blk. setParentItem blk p st) s ms)) = length (block_objs s)
   \<and> currentCluster (foldl (\<lambda>st blk. setParentItem blk p st) s ms) = currentCluster s
   \<and> blocks (foldl (\<lambda>st blk. setParentItem blk p st) s ms) = blocks s
   \<and> clusters (foldl (\<lambda>st blk. setParentItem blk p st) s ms) = clusters s
   \<and> connections (foldl (\<lambda>st blk. setParentItem blk p st) s ms) = connections s"
  by (induction ms arbitrary: s) (simp_all add: setParentItem_def)

lemma reparent_all_nth:
  "m < length (block_objs s) \<Longrightarrow>
   block_objs (foldl (\<lambda>st blk. setParentItem blk p st) s ms) ! m =
     (if m \<in> set ms then (block_objs s ! m)\<lparr>parentItem := p\<rparr> else block_objs s ! m)"
proof (induction ms arbitrary: s)
  case Nil
  then show ?case by simp
next
  case (Cons x ms)
  let ?s1 = "setParentItem x p s"
  have len: "m < length (block_objs ?s1)" using Cons.prems by (simp add: setParentItem_def)
  have nth: "block_objs ?s1 ! m =
      (if m = x then (block_objs s ! m)\<lparr>parentItem := p\<rparr> else block_objs s ! m)"
    using Cons.prems by (simp add: setParentItem_def nth_list_update)
  show ?case
  proof (cases "m = x")
    case True
    with Cons.IH [OF len] nth show ?thesis by simp
  next
    case False
    with Cons.IH [OF len] nth show ?thesis by simp
  qed
qed

lemma map_update_same: "(map f xs)[c := f (xs ! c)] = map f xs"
proof (cases "c < length xs")
  case True
  then have "map f xs ! c = f (xs ! c)" by simp
  with True show ?thesis by (simp add: list_update_same_conv)
next
  case False
  then have "length (map f xs) \<le> c" by simp
  then show ?thesis by (rule list_update_beyond)
qed

lemma attach_block_frame:
  "length (block_objs (attach_block c r s x)) = length (block_objs s)
   \<and> length (cluster_objs (attach_block c r s x)) = length (cluster_objs s)
   \<and> map cpos (cluster_objs (attach_block c r s x)) = map cpos (cluster_objs s)"
  by (simp add: attach_block_def setParentItem_def Let_def map_update map_update_same)

lemma scenePos_unparented: "parentItem b = None \<Longrightarrow> scenePos s b = pos b"
  by (simp add: scenePos_def)

lemma attach_block_nth:
  assumes "m < length (block_objs s)"
  shows "block_objs (attach_block c r s x) ! m =
     (if m = x \<and> parentItem (block_objs s ! m) = None \<and> contains r (pos (block_objs s ! m))
      then (block_objs s ! m)\<lparr>parentItem := Some c\<rparr> else block_objs s ! m)"
proof (cases "parentItem (block_objs s ! x) = None \<and> contains r (scenePos s (block_objs s ! x))")
  case True
  then have sp: "scenePos s (block_objs s ! x) = pos (block_objs s ! x)"
    by (simp add: scenePos_unparented)
  from True have "block_objs (attach_block c r s x) =
      (block_objs s)[x := (block_objs s ! x)\<lparr>parentItem := Some c\<rparr>]"
    by (simp add: attach_block_def setParentItem_def Let_def)
  with assms True sp show ?thesis by (auto simp: nth_list_update)
next
  case False
  then have same: "attach_block c r s x = s" by (auto simp: attach_block_def Let_def)
  from False have "\<not> (parentItem (block_objs s ! x) = None \<and> contains r (pos (block_objs s ! x)))"
    by (auto simp: scenePos_unparented)
  with same show ?thesis by auto
qed

lemma attach_all_frame:
  "length (block_objs (foldl (attach_block c r) s xs)) = length (block_objs s)
   \<and> length (cluster_objs (foldl (attach_block c r) s xs)) = length (cluster_objs s)
   \<and> map cpos (cluster_objs (foldl (attach_block c r) s xs)) = map cpos (cluster_objs s)"
proof (induction xs arbitrary: s)
  case Nil
  then show ?case by simp
next
  case (Cons x xs)
  from Cons.IH [of "attach_block c r s x"] attach_block_frame [of c r s x]
  show ?case by simp
qed

lemma attach_all_nth:
  assumes "m < length (block_objs s)"
  shows "block_objs (foldl (attach_block c r) s xs) ! m =
     (if m \<in> set xs \<and> parentItem (block_objs s ! m) = None \<and> contains r (pos (block_objs s ! m))
      then (block_objs s ! m)\<lparr>parentItem := Some c\<rparr> else block_objs s ! m)"
  using assms
proof (induction xs arbitrary: s)
  case Nil
  then show ?case by simp
next
  case (Cons x xs)
  let ?s1 = "attach_block c r s x"
  let ?cond = "parentItem (block_objs s ! m) = None \<and> contains r (pos (block_objs s ! m))"
  have len: "m < length (block_objs ?s1)" using Cons.prems attach_block_frame [of c r s x] by simp
  note ih = Cons.IH [OF len]
  show ?case
  proof (cases "m = x \<and> ?cond")
    case True
    with attach_block_nth [OF Cons.prems, of c r x]
    have "block_objs ?s1 ! m = (block_objs s ! m)\<lparr>parentItem := Some c\<rparr>" by auto
    with ih True show ?thesis by auto
  next
    case False
    with attach_block_nth [OF Cons.prems, of c r x]
    have "block_objs ?s1 ! m = block_objs s ! m" by auto
    with ih False show ?thesis by auto
  qed
qed

text \<open>
  C4, as stated, fails: the cluster of two grouped blocks has been dragged by (50, 0)
  when a third, unparented block at scene position (300, 150), inside the cluster's
  scene rectangle, is attached to it. The block then is a child of the cluster and its
  scene position is (350, 150).
\<close>

theorem attach_moved_cluster_example:
  "scenePos ex_attach (block_objs ex_attach ! 2) = (300, 150)
   \<and> cpos (cluster_objs ex_attach ! 0) = (50, 0)
   \<and> parentItem (block_objs (attachClusterBlocks ex_attach) ! 2) = Some 0
   \<and> scenePos (attachClusterBlocks ex_attach) (block_objs (attachClusterBlocks ex_attach) ! 2)
       = (350, 150)
   \<and> scenePos (attachClusterBlocks ex_attach) (block_objs (attachClusterBlocks ex_attach) ! 2)
       \<noteq> scenePos ex_attach (block_objs ex_attach ! 2)"
  by (simp add: eval_defs)

text \<open>
  C4, amended. Reparenting keeps the local position of the block. Grouping a selection
  of at least two blocks makes every selected block a child of the new cluster, which
  lies at the scene origin: a block that had no parent keeps its scene position, and a
  block that was the child of a cluster at \<open>q\<close> has its scene position shifted by
  \<open>- q\<close>. Attaching makes a registered, unparented block inside the scene rectangle
  of the current cluster a child of that cluster, and its scene position becomes the
  old one shifted by the position of the cluster.
\<close>

theorem reparent_keeps_local_position:
  assumes "2 \<le> length (selected_blocks sel)" and "m \<in> set (selected_blocks sel)"
    and "m < length (block_objs s)"
    and "currentCluster s2 = Some c" and "c < length (cluster_objs s2)"
    and "m2 \<in> snd ` set (blocks s2)" and "m2 < length (block_objs s2)"
    and "parentItem (block_objs s2 ! m2) = None"
    and "contains (cluster_sceneBoundingRect (cluster_objs s2 ! c))
           (scenePos s2 (block_objs s2 ! m2))"
  shows "parentItem (block_objs (groupSelectedBlocks sel s) ! m) = Some (length (cluster_objs s))
    \<and> pos (block_objs (groupSelectedBlocks sel s) ! m) = pos (block_objs s ! m)
    \<and> scenePos (groupSelectedBlocks sel s) (block_objs (groupSelectedBlocks sel s) ! m)
        = (case parentItem (block_objs s ! m) of
             None \<Rightarrow> scenePos s (block_objs s ! m)
           | Some p \<Rightarrow> psub (scenePos s (block_objs s ! m)) (cpos (cluster_objs s ! p)))
    \<and> parentItem (block_objs (attachClusterBlocks s2) ! m2) = Some c
    \<and> pos (block_objs (attachClusterBlocks s2) ! m2) = pos (block_objs s2 ! m2)
    \<and> scenePos (attachClusterBlocks s2) (block_objs (attachClusterBlocks s2) ! m2)
        = padd (cpos (cluster_objs s2 ! c)) (scenePos s2 (block_objs s2 ! m2))"
proof -
  let ?n = "length (cluster_objs s)"
  let ?cl = "GraphCluster_init s (selected_blocks sel)
               (CLUSTER_TITLE_PREFIX @ str_int (cluster_id_counter s))"
  let ?s1 = "s\<lparr>cluster_objs := cluster_objs s @ [?cl],
               clusters := AList.update (cluster_id_counter s) ?n (clusters s),
               cluster_id_counter := cluster_id_counter s + 1\<rparr>"
  let ?g = "groupSelectedBlocks sel s"
  have g: "?g = foldl (\<lambda>st blk. setParentItem blk (Some ?n) st) ?s1 (selected_blocks sel)"
    using assms(1) by (simp add: groupSelectedBlocks_def Let_def)
  have gb: "block_objs ?g ! m = (block_objs s ! m)\<lparr>parentItem := Some ?n\<rparr>"
    using assms(2,3) reparent_all_nth [of m ?s1 "Some ?n" "selected_blocks sel"]
    by (simp add: g)
  have gc: "cluster_objs ?g ! ?n = ?cl"
    using reparent_all_frame [of "Some ?n" ?s1 "selected_blocks sel"] by (simp add: g)
  have gs: "scenePos ?g (block_objs ?g ! m)
      = (case parentItem (block_objs s ! m) of
           None \<Rightarrow> scenePos s (block_objs s ! m)
         | Some p \<Rightarrow> psub (scenePos s (block_objs s ! m)) (cpos (cluster_objs s ! p)))"
    by (simp add: gb scenePos_def gc GraphCluster_init_def padd_def psub_def split: option.splits)
  let ?r = "cluster_sceneBoundingRect (cluster_objs s2 ! c)"
  let ?a = "attachClusterBlocks s2"
  have a: "?a = foldl (attach_block c ?r) s2 (map snd (blocks s2))"
    using assms(4) by (simp add: attachClusterBlocks_def Let_def)
  have sp2: "scenePos s2 (block_objs s2 ! m2) = pos (block_objs s2 ! m2)"
    using assms(8) by (rule scenePos_unparented)
  have ab: "block_objs ?a ! m2 = (block_objs s2 ! m2)\<lparr>parentItem := Some c\<rparr>"
    using assms(6,8,9) attach_all_nth [OF assms(7), of c ?r "map snd (blocks s2)"] sp2
    by (simp add: a)
  from attach_all_frame [of c ?r s2 "map snd (blocks s2)"]
  have "map cpos (cluster_objs ?a) ! c = map cpos (cluster_objs s2) ! c"
    and "length (cluster_objs ?a) = length (cluster_objs s2)"
    by (simp_all add: a)
  with assms(5) have ac: "cpos (cluster_objs ?a ! c) = cpos (cluster_objs s2 ! c)" by simp
  have as: "scenePos ?a (block_objs ?a ! m2)
      = padd (cpos (cluster_objs s2 ! c)) (scenePos s2 (block_objs s2 ! m2))"
    by (simp add: ab scenePos_def ac sp2 [unfolded scenePos_def])
  from gb gs ab as show ?thesis by simp
qed


theorem reparent_keeps_local_position_witness:
  "2 \<le> length (selected_blocks [BlockItem 0, BlockItem 1])
   \<and> 0 \<in> set (selected_blocks [BlockItem 0, BlockItem 1])
   \<and> 0 < length (block_objs ex_two_blocks)
   \<and> currentCluster ex_attach = Some 0 \<and> 0 < length (cluster_objs ex_attach)
   \<and> 2 \<in> snd ` set (blocks ex_attach) \<and> 2 < length (block_objs ex_attach)
   \<and> parentItem (block_objs ex_attach ! 2) = None
   \<and> contains (cluster_sceneBoundingRect (cluster_objs ex_attach ! 0))
        (scenePos ex_attach (block_objs ex_attach ! 2))
   \<and> scenePos (groupSelectedBlocks [BlockItem 0, BlockItem 1] ex_two_blocks)
        (block_objs (groupSelectedBlocks [BlockItem 0, BlockItem 1] ex_two_blocks) ! 0)
       = (100, 100)
   \<and> pos (block_objs (attachClusterBlocks ex_attach) ! 2) = (300, 150)
   \<and> scenePos (attachClusterBlocks ex_attach) (block_objs (attachClusterBlocks ex_attach) ! 2)
       = padd (50, 0) (300, 150)"
proof -
  have h1: "2 \<le> length (selected_blocks [BlockItem 0, BlockItem 1])"
    and h2: "0 \<in> set (selected_blocks [BlockItem 0, BlockItem 1])"
    by (simp_all add: selected_blocks_def)
  have h3: "0 < length (block_objs ex_two_blocks)"
    by (simp add: eval_defs)
  have h4: "currentCluster ex_attach = Some 0" and h5: "0 < length (cluster_objs ex_attach)"
    and h6: "2 \<in> snd ` set (blocks ex_attach)" and h7: "2 < length (block_objs ex_attach)"
    and h8: "parentItem (block_objs ex_attach ! 2) = None"
    by (simp_all add: eval_defs)
  have h9: "contains (cluster_sceneBoundingRect (cluster_objs ex_attach ! 0))
        (scenePos ex_attach (block_objs ex_attach ! 2))"
    by (simp add: eval_defs)
  have e: "parentItem (block_objs ex_two_blocks ! 0) = None
    \<and> scenePos ex_two_blocks (block_objs ex_two_blocks ! 0) = (100, 100)
    \<and> pos (block_objs ex_attach ! 2) = (300, 150)
    \<and> cpos (cluster_objs ex_attach ! 0) = (50, 0)
    \<and> scenePos ex_attach (block_objs ex_attach ! 2) = (300, 150)"
    by (simp add: eval_defs)
  from reparent_keeps_local_position [OF h1 h2 h3 h4 h5 h6 h7 h8 h9] e
    h1 h2 h3 h4 h5 h6 h7 h8 h9
  show ?thesis by simp
qed

text \<open>
  C5, as stated, fails, on the scenario of the specification: two blocks at (100, 100)
  and (400, 100) are grouped and the cluster is dragged by (50, 0), which takes the
  first block to the scene position (150, 100). Detaching then puts it back at
  (100, 100).
\<close>

theorem detach_moved_cluster_example:
  "scenePos ex_moved (block_objs ex_moved ! 0) = (150, 100)
   \<and> scenePos (detachClusterBlocks ex_moved) (block_objs (detachClusterBlocks ex_moved) ! 0)
       = (100, 100)
   \<and> scenePos (detachClusterBlocks ex_moved) (block_objs (detachClusterBlocks ex_moved) ! 0)
       \<noteq> scenePos ex_moved (block_objs ex_moved ! 0)"
  by (simp add: eval_defs)

text \<open>
  C5, amended. Detaching the blocks of the current cluster makes every member a
  top-level item with its local position unchanged: a member that had no parent keeps
  its scene position, and a member that was the child of a cluster at \<open>q\<close> has its
  scene position shifted by \<open>- q\<close>. The member list of the cluster becomes empty and
  its rectangle the null rectangle.
\<close>

theorem detach_effect:
  assumes "currentCluster s = Some c" and "c < length (cluster_objs s)"
    and "m \<in> set (cblocks (cluster_objs s ! c))" and "m < length (block_objs s)"
  shows "parentItem (block_objs (detachClusterBlocks s) ! m) = None
    \<and> pos (block_objs (detachClusterBlocks s) ! m) = pos (block_objs s ! m)
    \<and> scenePos (detachClusterBlocks s) (block_objs (detachClusterBlocks s) ! m)
        = (case parentItem (block_objs s ! m) of
             None \<Rightarrow> scenePos s (block_objs s ! m)
           | Some p \<Rightarrow> psub (scenePos s (block_objs s ! m)) (cpos (cluster_objs s ! p)))
    \<and> cblocks (cluster_objs (detachClusterBlocks s) ! c) = []
    \<and> crect (cluster_objs (detachClusterBlocks s) ! c) = QRectF_null"
proof -
  let ?s1 = "foldl (\<lambda>st blk. setParentItem blk None st) s (cblocks (cluster_objs s ! c))"
  have d: "detachClusterBlocks s =
      ?s1\<lparr>cluster_objs := (cluster_objs s)[c := (cluster_objs s ! c)\<lparr>cblocks := [], crect := QRectF_null\<rparr>]\<rparr>"
    using assms(1) by (simp add: detachClusterBlocks_def Let_def reparent_all_frame)
  have b: "block_objs (detachClusterBlocks s) ! m = (block_objs s ! m)\<lparr>parentItem := None\<rparr>"
    using assms(3) reparent_all_nth [OF assms(4), of None "cblocks (cluster_objs s ! c)"]
    by (simp add: d)
  have sp: "scenePos (detachClusterBlocks s) (block_objs (detachClusterBlocks s) ! m)
        = (case parentItem (block_objs s ! m) of
             None \<Rightarrow> scenePos s (block_objs s ! m)
           | Some p \<Rightarrow> psub (scenePos s (block_objs s ! m)) (cpos (cluster_objs s ! p)))"
    by (simp add: b scenePos_def psub_def padd_def split: option.splits)
  from assms(2) have cl: "cblocks (cluster_objs (detachClusterBlocks s) ! c) = []
    \<and> crect (cluster_objs (detachClusterBlocks s) ! c) = QRectF_null"
    by (simp add: d)
  from sp cl show ?thesis by (simp add: b)
qed


theorem detach_effect_witness:
  "currentCluster ex_moved = Some 0 \<and> 0 < length (cluster_objs ex_moved)
   \<and> 0 \<in> set (cblocks (cluster_objs ex_moved ! 0)) \<and> 0 < length (block_objs ex_moved)
   \<and> parentItem (block_objs (detachClusterBlocks ex_moved) ! 0) = None
   \<and> scenePos (detachClusterBlocks ex_moved) (block_objs (detachClusterBlocks ex_moved) ! 0)
       = psub (150, 100) (50, 0)
   \<and> cblocks (cluster_objs (detachClusterBlocks ex_moved) ! 0) = []
   \<and> crect (cluster_objs (detachClusterBlocks ex_moved) ! 0) = QRectF_null"
proof -
  have h1: "currentCluster ex_moved = Some 0" and h2: "0 < length (cluster_objs ex_moved)"
    and h3: "0 \<in> set (cblocks (cluster_objs ex_moved ! 0))"
    and h4: "0 < length (block_objs ex_moved)"
    by (simp_all add: eval_defs)
  have e: "parentItem (block_objs ex_moved ! 0) = Some 0
    \<and> scenePos ex_moved (block_objs ex_moved ! 0) = (150, 100)
    \<and> cpos (cluster_objs ex_moved ! 0) = (50, 0)"
    by (simp add: eval_defs)
  from detach_effect [OF h1 h2 h3 h4] e h1 h2 h3 h4 show ?thesis by simp
qed

section \<open>The round trip of a document\<close>























section \<open>The anchors at all times\<close>




























end
